theory Spec2Isabelle
  imports Main
begin

section \<open>The Discord client of the GitHub bridge (internal/discord/client.go)\<close>

text \<open>
  The client talks to a remote HTTP API through four library calls: \<^verbatim>\<open>http.NewRequest\<close>,
  \<^verbatim>\<open>httpClient.Do\<close>, \<^verbatim>\<open>json.Marshal\<close> and \<^verbatim>\<open>json.Unmarshal\<close>. They belong to the Go
  standard library, not to the package, so they are parameters of the model (the record
  \<open>env\<close> below); the package's own code is written out over them, branch by branch.
  Strings are byte lists, integers are unbounded (no arithmetic is done on them).
\<close>

subsection \<open>Wire data model\<close>

text \<open>A JSON document, as the struct tags of the package describe it.\<close>

datatype json =
  JNull
| JBool bool
| JNum int
| JStr string
| JArr "json list"
| JObj "(string \<times> json) list"

definition DiscordAPIBase :: string where
  "DiscordAPIBase = ''https://discord.com/api/v10''"

text \<open>
  \<^verbatim>\<open>Client\<close>: the \<^verbatim>\<open>httpClient\<close> field (a transport with a 10 second timeout) is the
  \<open>httpClient_Do\<close> parameter of the environment.
\<close>

record Client =
  token :: string
  forumChannelID :: string

definition NewClient :: "string \<Rightarrow> string \<Rightarrow> Client" where
  "NewClient tok channel = \<lparr>token = tok, forumChannelID = channel\<rparr>"

record EmbedField =
  field_Name :: string
  field_Value :: string
  field_Inline :: bool

record EmbedFooter =
  footer_Text :: string
  footer_IconURL :: string

text \<open>\<^verbatim>\<open>Footer *EmbedFooter\<close> is a pointer: \<open>None\<close> is nil.\<close>

record Embed =
  embed_Title :: string
  embed_Description :: string
  embed_URL :: string
  embed_Color :: int
  embed_Fields :: "EmbedField list"
  embed_Timestamp :: string
  embed_Footer :: "EmbedFooter option"

record ThreadMessage =
  msg_Content :: string
  msg_Embeds :: "Embed list"

record CreateThreadRequest =
  ctr_Name :: string
  ctr_Message :: ThreadMessage
  ctr_AppliedTags :: "string list"

record CreateThreadResponse =
  thread_ID :: string
  thread_Name :: string

record ForumTag =
  tag_ID :: string
  tag_Name :: string

record ForumChannelResponse =
  AvailableTags :: "ForumTag list"

record ArchiveThreadRequest =
  Archived :: bool

subsection \<open>The JSON documents the struct tags give\<close>

text \<open>
  A field tagged \<^verbatim>\<open>omitempty\<close> is left out when it holds its zero value: the empty
  string, 0, false, a nil pointer, a slice of length 0.
\<close>

definition omitempty_string :: "string \<Rightarrow> string \<Rightarrow> (string \<times> json) list" where
  "omitempty_string key s = (if s = [] then [] else [(key, JStr s)])"

definition EmbedField_json :: "EmbedField \<Rightarrow> json" where
  "EmbedField_json f =
     JObj ([(''name'', JStr (field_Name f)), (''value'', JStr (field_Value f))]
           @ (if field_Inline f then [(''inline'', JBool True)] else []))"

definition EmbedFooter_json :: "EmbedFooter \<Rightarrow> json" where
  "EmbedFooter_json ft =
     JObj ([(''text'', JStr (footer_Text ft))] @ omitempty_string ''icon_url'' (footer_IconURL ft))"

definition Embed_json :: "Embed \<Rightarrow> json" where
  "Embed_json e =
     JObj (omitempty_string ''title'' (embed_Title e)
           @ omitempty_string ''description'' (embed_Description e)
           @ omitempty_string ''url'' (embed_URL e)
           @ (if embed_Color e = 0 then [] else [(''color'', JNum (embed_Color e))])
           @ (if embed_Fields e = [] then []
              else [(''fields'', JArr (map EmbedField_json (embed_Fields e)))])
           @ omitempty_string ''timestamp'' (embed_Timestamp e)
           @ (case embed_Footer e of None \<Rightarrow> []
              | Some ft \<Rightarrow> [(''footer'', EmbedFooter_json ft)]))"

definition ThreadMessage_json :: "ThreadMessage \<Rightarrow> json" where
  "ThreadMessage_json m =
     JObj (omitempty_string ''content'' (msg_Content m)
           @ (if msg_Embeds m = [] then []
              else [(''embeds'', JArr (map Embed_json (msg_Embeds m)))]))"

definition CreateThreadRequest_json :: "CreateThreadRequest \<Rightarrow> json" where
  "CreateThreadRequest_json r =
     JObj ([(''name'', JStr (ctr_Name r)), (''message'', ThreadMessage_json (ctr_Message r))]
           @ (if ctr_AppliedTags r = [] then []
              else [(''applied_tags'', JArr (map JStr (ctr_AppliedTags r)))]))"

text \<open>Neither field of \<^verbatim>\<open>ForumTag\<close> is \<^verbatim>\<open>omitempty\<close>: an empty id is written as \<^verbatim>\<open>"id":""\<close>.\<close>

definition ForumTag_json :: "ForumTag \<Rightarrow> json" where
  "ForumTag_json t = JObj [(''id'', JStr (tag_ID t)), (''name'', JStr (tag_Name t))]"

text \<open>
  The local type \<^verbatim>\<open>PatchBody\<close> of \<^verbatim>\<open>GetOrCreateRepoTag\<close>. Its only value is built with
  \<^verbatim>\<open>append\<close>, so the slice is never nil and is written as an array.
\<close>

definition PatchBody_json :: "ForumTag list \<Rightarrow> json" where
  "PatchBody_json tags = JObj [(''available_tags'', JArr (map ForumTag_json tags))]"

definition ArchiveThreadRequest_json :: "ArchiveThreadRequest \<Rightarrow> json" where
  "ArchiveThreadRequest_json r = JObj [(''archived'', JBool (Archived r))]"

subsection \<open>Requests, responses, errors\<close>

text \<open>
  \<^verbatim>\<open>http.Request\<close>, as far as the package touches it. The body is \<open>None\<close> for the nil
  reader, otherwise the bytes of the buffer. \<^verbatim>\<open>Header.Set\<close> replaces the value stored
  under a key; the two keys used are already in canonical form.
\<close>

record request =
  Method :: string
  URL :: string
  Header :: "string \<rightharpoonup> string"
  Body :: "string option"

text \<open>
  \<^verbatim>\<open>http.Response\<close>: the status code and what \<^verbatim>\<open>io.ReadAll(resp.Body)\<close> yields (the
  package drops the error of \<^verbatim>\<open>ReadAll\<close>, so a short read counts as the body).
\<close>

record response =
  StatusCode :: int
  resp_Body :: string

text \<open>
  One constructor per \<^verbatim>\<open>fmt.Errorf\<close> of the package. A wrapped library error (\<^verbatim>\<open>%w\<close>) is
  kept as its message.
\<close>

datatype error =
  FailedToCreateRequest string
| FailedToGetChannel string
| APIError int string
| FailedToParseChannel string
| FailedToMarshalPatch string
| FailedToCreatePatchRequest string
| FailedToPatchChannel string
| APIErrorOnPatch int string
| FailedToParseUpdatedChannel string
| TagCreatedNotFound
| FailedToMarshalRequest string
| FailedToSendRequest string
| FailedToParseResponse string
| FailedToMarshalMessage string

text \<open>\<^verbatim>\<open>%d\<close> of an integer: decimal digits, with a minus sign below zero.\<close>

fun digits :: "nat \<Rightarrow> string" where
  "digits n = (if n < 10 then [''0123456789'' ! n]
               else digits (n div 10) @ [''0123456789'' ! (n mod 10)])"

declare digits.simps [simp del]

definition itoa :: "int \<Rightarrow> string" where
  "itoa i = (if i < 0 then CHR ''-'' # digits (nat (- i)) else digits (nat i))"

text \<open>The message of an error, \<^verbatim>\<open>err.Error()\<close>: the format strings of the source.\<close>

fun Error :: "error \<Rightarrow> string" where
  "Error (FailedToCreateRequest e) = ''failed to create request: '' @ e"
| "Error (FailedToGetChannel e) = ''failed to get channel: '' @ e"
| "Error (APIError status body) = ''discord API error (status '' @ itoa status @ ''): '' @ body"
| "Error (FailedToParseChannel e) = ''failed to parse channel: '' @ e"
| "Error (FailedToMarshalPatch e) = ''failed to marshal patch: '' @ e"
| "Error (FailedToCreatePatchRequest e) = ''failed to create patch request: '' @ e"
| "Error (FailedToPatchChannel e) = ''failed to patch channel: '' @ e"
| "Error (APIErrorOnPatch status body) =
     ''discord API error on patch (status '' @ itoa status @ ''): '' @ body"
| "Error (FailedToParseUpdatedChannel e) = ''failed to parse updated channel: '' @ e"
| "Error TagCreatedNotFound = ''tag created but not found in response''"
| "Error (FailedToMarshalRequest e) = ''failed to marshal request: '' @ e"
| "Error (FailedToSendRequest e) = ''failed to send request: '' @ e"
| "Error (FailedToParseResponse e) = ''failed to parse response: '' @ e"
| "Error (FailedToMarshalMessage e) = ''failed to marshal message: '' @ e"

subsection \<open>The standard library and the remote side\<close>

text \<open>
  What the package takes from outside. A library error is \<open>Inl\<close> of its message.
  \<^item> \<open>url_Parse\<close>: the only way \<^verbatim>\<open>http.NewRequest\<close> fails here (the methods are the
    constants GET, POST and PATCH): \<open>Some e\<close> when the URL is rejected with message \<open>e\<close>.
  \<^item> \<open>json_Marshal\<close>: the bytes of a document, or an error.
  \<^item> \<open>Unmarshal_ForumChannelResponse\<close>, \<open>Unmarshal_CreateThreadResponse\<close>:
    \<^verbatim>\<open>json.Unmarshal\<close> into a zero value of the struct.
  \<^item> \<open>httpClient_Do\<close>: the network and the remote API, with a state \<open>'s\<close> of their own:
    a transport error, or a response.
\<close>

record 's env =
  url_Parse :: "string \<Rightarrow> string option"
  json_Marshal :: "json \<Rightarrow> string + string"
  Unmarshal_ForumChannelResponse :: "string \<Rightarrow> string + ForumChannelResponse"
  Unmarshal_CreateThreadResponse :: "string \<Rightarrow> string + CreateThreadResponse"
  httpClient_Do :: "'s \<Rightarrow> request \<Rightarrow> (string + response) \<times> 's"

text \<open>
  The effects of a call, in order: every request handed to \<^verbatim>\<open>httpClient.Do\<close> (whatever its
  outcome) and every read of a response body. The deferred \<^verbatim>\<open>resp.Body.Close()\<close> changes
  no result and is left out of the trace.
\<close>

datatype event = Sent request | BodyRead

record 's world =
  remote :: 's
  trace :: "event list"

definition NewRequest :: "'s env \<Rightarrow> string \<Rightarrow> string \<Rightarrow> string option \<Rightarrow> string + request" where
  "NewRequest env method url body =
     (case url_Parse env url of
        Some err \<Rightarrow> Inl err
      | None \<Rightarrow> Inr \<lparr>Method = method, URL = url, Header = Map.empty, Body = body\<rparr>)"

definition Header_Set :: "string \<Rightarrow> string \<Rightarrow> request \<Rightarrow> request" where
  "Header_Set key v req = req\<lparr>Header := (Header req)(key \<mapsto> v)\<rparr>"

definition Do :: "'s env \<Rightarrow> request \<Rightarrow> 's world \<Rightarrow> (string + response) \<times> 's world" where
  "Do env req w =
     (case httpClient_Do env (remote w) req of
        (out, s) \<Rightarrow> (out, \<lparr>remote = s, trace = trace w @ [Sent req]\<rparr>))"

definition ReadAll :: "response \<Rightarrow> 's world \<Rightarrow> string \<times> 's world" where
  "ReadAll resp w = (resp_Body resp, w\<lparr>trace := trace w @ [BodyRead]\<rparr>)"

text \<open>The requests of a trace, and those of one method.\<close>

fun requests :: "event list \<Rightarrow> request list" where
  "requests [] = []"
| "requests (Sent r # es) = r # requests es"
| "requests (BodyRead # es) = requests es"

definition requests_of :: "string \<Rightarrow> event list \<Rightarrow> request list" where
  "requests_of m es = filter (\<lambda>r. Method r = m) (requests es)"

subsection \<open>GetOrCreateRepoTag\<close>

text \<open>
  The loop \<^verbatim>\<open>for _, tag := range tags { if tag.Name == repoName { return tag.ID, nil } }\<close>:
  \<open>Some\<close> of the id returned, \<open>None\<close> when the loop runs to its end.
\<close>

fun scanTags :: "string \<Rightarrow> ForumTag list \<Rightarrow> string option" where
  "scanTags repoName [] = None"
| "scanTags repoName (tag # rest) =
     (if tag_Name tag = repoName then Some (tag_ID tag) else scanTags repoName rest)"

text \<open>A Go result \<^verbatim>\<open>(string, error)\<close> is a pair; \<open>None\<close> is the nil error.\<close>

definition GetOrCreateRepoTag ::
  "'s env \<Rightarrow> Client \<Rightarrow> string \<Rightarrow> 's world \<Rightarrow> (string \<times> error option) \<times> 's world" where
  "GetOrCreateRepoTag env c repoName w =
    (let url = DiscordAPIBase @ ''/channels/'' @ forumChannelID c in
     case NewRequest env ''GET'' url None of
       Inl err \<Rightarrow> (('''', Some (FailedToCreateRequest err)), w)
     | Inr req0 \<Rightarrow>
      (let req = Header_Set ''Authorization'' (''Bot '' @ token c) req0 in
       case Do env req w of
         (Inl err, w1) \<Rightarrow> (('''', Some (FailedToGetChannel err)), w1)
       | (Inr resp, w1) \<Rightarrow>
        (case ReadAll resp w1 of (body, w2) \<Rightarrow>
         if StatusCode resp \<noteq> 200 then (('''', Some (APIError (StatusCode resp) body)), w2)
         else
          (case Unmarshal_ForumChannelResponse env body of
             Inl err \<Rightarrow> (('''', Some (FailedToParseChannel err)), w2)
           | Inr channel \<Rightarrow>
            (case scanTags repoName (AvailableTags channel) of
               Some tid \<Rightarrow> ((tid, None), w2)
             | None \<Rightarrow>
              (let newTags = AvailableTags channel @ [\<lparr>tag_ID = '''', tag_Name = repoName\<rparr>] in
               case json_Marshal env (PatchBody_json newTags) of
                 Inl err \<Rightarrow> (('''', Some (FailedToMarshalPatch err)), w2)
               | Inr patchData \<Rightarrow>
                (case NewRequest env ''PATCH'' url (Some patchData) of
                   Inl err \<Rightarrow> (('''', Some (FailedToCreatePatchRequest err)), w2)
                 | Inr patchReq0 \<Rightarrow>
                  (let patchReq =
                     Header_Set ''Content-Type'' ''application/json''
                       (Header_Set ''Authorization'' (''Bot '' @ token c) patchReq0) in
                   case Do env patchReq w2 of
                     (Inl err, w3) \<Rightarrow> (('''', Some (FailedToPatchChannel err)), w3)
                   | (Inr patchResp, w3) \<Rightarrow>
                    (case ReadAll patchResp w3 of (patchBody, w4) \<Rightarrow>
                     if StatusCode patchResp \<noteq> 200
                     then (('''', Some (APIErrorOnPatch (StatusCode patchResp) patchBody)), w4)
                     else
                      (case Unmarshal_ForumChannelResponse env patchBody of
                         Inl err \<Rightarrow> (('''', Some (FailedToParseUpdatedChannel err)), w4)
                       | Inr updated \<Rightarrow>
                        (case scanTags repoName (AvailableTags updated) of
                           Some tid \<Rightarrow> ((tid, None), w4)
                         | None \<Rightarrow> (('''', Some TagCreatedNotFound), w4))))))))))))"

subsection \<open>CreateThread, PostMessage, ArchiveThread\<close>

definition CreateThread ::
  "'s env \<Rightarrow> Client \<Rightarrow> string \<Rightarrow> ThreadMessage \<Rightarrow> string list \<Rightarrow> 's world
     \<Rightarrow> (string \<times> error option) \<times> 's world" where
  "CreateThread env c title message tagIDs w =
    (let url = DiscordAPIBase @ ''/channels/'' @ forumChannelID c @ ''/threads'';
         reqBody = \<lparr>ctr_Name = title, ctr_Message = message, ctr_AppliedTags = tagIDs\<rparr> in
     case json_Marshal env (CreateThreadRequest_json reqBody) of
       Inl err \<Rightarrow> (('''', Some (FailedToMarshalRequest err)), w)
     | Inr jsonData \<Rightarrow>
      (case NewRequest env ''POST'' url (Some jsonData) of
         Inl err \<Rightarrow> (('''', Some (FailedToCreateRequest err)), w)
       | Inr req0 \<Rightarrow>
        (let req = Header_Set ''Content-Type'' ''application/json''
                     (Header_Set ''Authorization'' (''Bot '' @ token c) req0) in
         case Do env req w of
           (Inl err, w1) \<Rightarrow> (('''', Some (FailedToSendRequest err)), w1)
         | (Inr resp, w1) \<Rightarrow>
          (case ReadAll resp w1 of (body, w2) \<Rightarrow>
           if StatusCode resp \<noteq> 201 then (('''', Some (APIError (StatusCode resp) body)), w2)
           else
            (case Unmarshal_CreateThreadResponse env body of
               Inl err \<Rightarrow> (('''', Some (FailedToParseResponse err)), w2)
             | Inr result \<Rightarrow> ((thread_ID result, None), w2))))))"

text \<open>\<^verbatim>\<open>PostMessage\<close> and \<^verbatim>\<open>ArchiveThread\<close> return an \<^verbatim>\<open>error\<close>: \<open>None\<close> is nil, success.\<close>

definition PostMessage ::
  "'s env \<Rightarrow> Client \<Rightarrow> string \<Rightarrow> ThreadMessage \<Rightarrow> 's world \<Rightarrow> error option \<times> 's world" where
  "PostMessage env c threadID message w =
    (let url = DiscordAPIBase @ ''/channels/'' @ threadID @ ''/messages'' in
     case json_Marshal env (ThreadMessage_json message) of
       Inl err \<Rightarrow> (Some (FailedToMarshalMessage err), w)
     | Inr jsonData \<Rightarrow>
      (case NewRequest env ''POST'' url (Some jsonData) of
         Inl err \<Rightarrow> (Some (FailedToCreateRequest err), w)
       | Inr req0 \<Rightarrow>
        (let req = Header_Set ''Content-Type'' ''application/json''
                     (Header_Set ''Authorization'' (''Bot '' @ token c) req0) in
         case Do env req w of
           (Inl err, w1) \<Rightarrow> (Some (FailedToSendRequest err), w1)
         | (Inr resp, w1) \<Rightarrow>
           if StatusCode resp \<noteq> 200 \<and> StatusCode resp \<noteq> 201
           then (case ReadAll resp w1 of (body, w2) \<Rightarrow>
                   (Some (APIError (StatusCode resp) body), w2))
           else (None, w1))))"

definition ArchiveThread ::
  "'s env \<Rightarrow> Client \<Rightarrow> string \<Rightarrow> 's world \<Rightarrow> error option \<times> 's world" where
  "ArchiveThread env c threadID w =
    (let url = DiscordAPIBase @ ''/channels/'' @ threadID;
         reqBody = \<lparr>Archived = True\<rparr> in
     case json_Marshal env (ArchiveThreadRequest_json reqBody) of
       Inl err \<Rightarrow> (Some (FailedToMarshalRequest err), w)
     | Inr jsonData \<Rightarrow>
      (case NewRequest env ''PATCH'' url (Some jsonData) of
         Inl err \<Rightarrow> (Some (FailedToCreateRequest err), w)
       | Inr req0 \<Rightarrow>
        (let req = Header_Set ''Content-Type'' ''application/json''
                     (Header_Set ''Authorization'' (''Bot '' @ token c) req0) in
         case Do env req w of
           (Inl err, w1) \<Rightarrow> (Some (FailedToSendRequest err), w1)
         | (Inr resp, w1) \<Rightarrow>
           if StatusCode resp \<noteq> 200
           then (case ReadAll resp w1 of (body, w2) \<Rightarrow>
                   (Some (APIError (StatusCode resp) body), w2))
           else (None, w1))))"

subsection \<open>A test double for the library and the remote side\<close>

text \<open>
  The decoders know the bodies of the scenarios and reject everything else; the transport
  answers each request with the next canned outcome.
\<close>

definition mock_Unmarshal_ForumChannelResponse :: "string \<Rightarrow> string + ForumChannelResponse" where
  \<open>mock_Unmarshal_ForumChannelResponse body =
     (if body = ''{"available_tags":[{"id":"1","name":"repoA"}]}''
      then Inr \<lparr>AvailableTags = [\<lparr>tag_ID = ''1'', tag_Name = ''repoA''\<rparr>]\<rparr>
      else if body = ''{"available_tags":[]}''
      then Inr \<lparr>AvailableTags = []\<rparr>
      else if body = ''{"available_tags":[{"id":"42","name":"repoB"}]}''
      then Inr \<lparr>AvailableTags = [\<lparr>tag_ID = ''42'', tag_Name = ''repoB''\<rparr>]\<rparr>
      else if body = ''{"available_tags":[{"id":"7","name":"repoC"},{"id":"8","name":"repoC"}]}''
      then Inr \<lparr>AvailableTags = [\<lparr>tag_ID = ''7'', tag_Name = ''repoC''\<rparr>,
                                 \<lparr>tag_ID = ''8'', tag_Name = ''repoC''\<rparr>]\<rparr>
      else Inl ''invalid character'')\<close>

definition mock_Unmarshal_CreateThreadResponse :: "string \<Rightarrow> string + CreateThreadResponse" where
  \<open>mock_Unmarshal_CreateThreadResponse body =
     (if body = ''{"id":"999","name":"Issue #1"}''
      then Inr \<lparr>thread_ID = ''999'', thread_Name = ''Issue #1''\<rparr>
      else if body = ''{"name":"Issue #1"}''
      then Inr \<lparr>thread_ID = '''', thread_Name = ''Issue #1''\<rparr>
      else Inl ''invalid character'')\<close>

definition mock_Do ::
  "(string + response) list \<Rightarrow> request \<Rightarrow> (string + response) \<times> (string + response) list" where
  "mock_Do canned req =
     (case canned of [] \<Rightarrow> (Inl ''connection refused'', []) | out # rest \<Rightarrow> (out, rest))"

definition mock_env :: "(string + response) list env" where
  \<open>mock_env =
     \<lparr>url_Parse = (\<lambda>url. None),
      json_Marshal = (\<lambda>doc. if doc = JObj [(''archived'', JBool True)]
                             then Inr ''{"archived":true}'' else Inr ''{}''),
      Unmarshal_ForumChannelResponse = mock_Unmarshal_ForumChannelResponse,
      Unmarshal_CreateThreadResponse = mock_Unmarshal_CreateThreadResponse,
      httpClient_Do = mock_Do\<rparr>\<close>

section \<open>Properties\<close>

subsection \<open>Traces and the tag scan\<close>

lemma requests_append: "requests (xs @ ys) = requests xs @ requests ys"
  by (induction xs rule: requests.induct) simp_all

lemma requests_of_append: "requests_of m (xs @ ys) = requests_of m xs @ requests_of m ys"
  by (simp add: requests_of_def requests_append)

lemma scanTags_None:
  "scanTags repoName tags = None \<longleftrightarrow> (\<forall>t \<in> set tags. tag_Name t \<noteq> repoName)"
  by (induction tags) auto

lemma scanTags_Some:
  "scanTags repoName tags = Some tid \<Longrightarrow>
   \<exists>t \<in> set tags. tag_Name t = repoName \<and> tag_ID t = tid"
  by (induction tags) (auto split: if_splits)

lemma scanTags_first:
  "\<forall>u \<in> set pre. tag_Name u \<noteq> repoName \<Longrightarrow> tag_Name t = repoName \<Longrightarrow>
   scanTags repoName (pre @ t # post) = Some (tag_ID t)"
  by (induction pre) auto

lemma PatchBody_json_append:
  "PatchBody_json (tags @ [\<lparr>tag_ID = '''', tag_Name = repoName\<rparr>]) =
   JObj [(''available_tags'',
          JArr (map ForumTag_json tags @ [JObj [(''id'', JStr ''''), (''name'', JStr repoName)]]))]"
  by (simp add: PatchBody_json_def ForumTag_json_def)

subsection \<open>The two paths of GetOrCreateRepoTag after a fetch that decodes\<close>

lemma GetOrCreateRepoTag_found:
  fixes env :: "'s env"
  assumes getReq: "getReq = \<lparr>Method = ''GET'',
                     URL = DiscordAPIBase @ ''/channels/'' @ forumChannelID c,
                     Header = [''Authorization'' \<mapsto> ''Bot '' @ token c], Body = None\<rparr>"
    and url: "url_Parse env (URL getReq) = None"
    and fetch: "httpClient_Do env (remote w) getReq = (Inr resp, s1)"
    and ok: "StatusCode resp = 200"
    and dec: "Unmarshal_ForumChannelResponse env (resp_Body resp) = Inr channel"
    and scan: "scanTags repoName (AvailableTags channel) = Some tid"
  shows "GetOrCreateRepoTag env c repoName w =
      ((tid, None), \<lparr>remote = s1, trace = trace w @ [Sent getReq, BodyRead]\<rparr>)"
  using url fetch ok dec scan unfolding getReq
  by (simp add: GetOrCreateRepoTag_def NewRequest_def Header_Set_def Do_def ReadAll_def Let_def)

lemma GetOrCreateRepoTag_absent:
  fixes env :: "'s env"
  assumes getReq: "getReq = \<lparr>Method = ''GET'',
                     URL = DiscordAPIBase @ ''/channels/'' @ forumChannelID c,
                     Header = [''Authorization'' \<mapsto> ''Bot '' @ token c], Body = None\<rparr>"
    and patchReq: "patchReq = \<lparr>Method = ''PATCH'',
                     URL = DiscordAPIBase @ ''/channels/'' @ forumChannelID c,
                     Header = [''Authorization'' \<mapsto> ''Bot '' @ token c,
                               ''Content-Type'' \<mapsto> ''application/json''],
                     Body = Some patchData\<rparr>"
    and url: "url_Parse env (URL getReq) = None"
    and fetch: "httpClient_Do env (remote w) getReq = (Inr resp, s1)"
    and ok: "StatusCode resp = 200"
    and dec: "Unmarshal_ForumChannelResponse env (resp_Body resp) = Inr channel"
    and scan: "scanTags repoName (AvailableTags channel) = None"
    and marshal: "json_Marshal env
                    (PatchBody_json (AvailableTags channel @ [\<lparr>tag_ID = '''', tag_Name = repoName\<rparr>]))
                  = Inr patchData"
    and update: "httpClient_Do env s1 patchReq = (out, s2)"
  shows "GetOrCreateRepoTag env c repoName w =
      ((case out of
          Inl err \<Rightarrow> ('''', Some (FailedToPatchChannel err))
        | Inr patchResp \<Rightarrow>
            if StatusCode patchResp \<noteq> 200
            then ('''', Some (APIErrorOnPatch (StatusCode patchResp) (resp_Body patchResp)))
            else (case Unmarshal_ForumChannelResponse env (resp_Body patchResp) of
                    Inl err \<Rightarrow> ('''', Some (FailedToParseUpdatedChannel err))
                  | Inr updated \<Rightarrow>
                     (case scanTags repoName (AvailableTags updated) of
                        Some tid \<Rightarrow> (tid, None)
                      | None \<Rightarrow> ('''', Some TagCreatedNotFound)))),
       \<lparr>remote = s2,
        trace = trace w @ [Sent getReq, BodyRead, Sent patchReq]
                  @ (case out of Inl _ \<Rightarrow> [] | Inr _ \<Rightarrow> [BodyRead])\<rparr>)"
  using url fetch ok dec scan marshal update unfolding getReq patchReq
  by (simp add: GetOrCreateRepoTag_def NewRequest_def Header_Set_def Do_def ReadAll_def Let_def
      split: sum.splits option.splits)

section \<open>The claims\<close>

text \<open>
  C1. Whenever the fetched channel (status 200, body decoded) lists a tag whose name is
  \<open>repoName\<close>, compared as byte strings, \<open>GetOrCreateRepoTag\<close> returns the id of such a
  tag with a nil error, and the call adds to the trace exactly one request, the GET of the
  channel, and one read of its body: one fetch, no PATCH.
\<close>

theorem existing_tag_one_fetch_no_update:
  fixes env :: "'s env"
  assumes getReq: "getReq = \<lparr>Method = ''GET'',
                     URL = DiscordAPIBase @ ''/channels/'' @ forumChannelID c,
                     Header = [''Authorization'' \<mapsto> ''Bot '' @ token c], Body = None\<rparr>"
    and url: "url_Parse env (URL getReq) = None"
    and fetch: "httpClient_Do env (remote w) getReq = (Inr resp, s1)"
    and ok: "StatusCode resp = 200"
    and dec: "Unmarshal_ForumChannelResponse env (resp_Body resp) = Inr channel"
    and mem: "t \<in> set (AvailableTags channel)"
    and name: "tag_Name t = repoName"
  shows "\<exists>tid w'. GetOrCreateRepoTag env c repoName w = ((tid, None), w')
           \<and> (\<exists>u \<in> set (AvailableTags channel). tag_Name u = repoName \<and> tid = tag_ID u)
           \<and> trace w' = trace w @ [Sent getReq, BodyRead]
           \<and> length (requests_of ''GET'' (trace w')) = length (requests_of ''GET'' (trace w)) + 1
           \<and> requests_of ''PATCH'' (trace w') = requests_of ''PATCH'' (trace w)"
proof -
  from mem name have "scanTags repoName (AvailableTags channel) \<noteq> None"
    by (auto simp: scanTags_None)
  then obtain tid where tid: "scanTags repoName (AvailableTags channel) = Some tid"
    by blast
  from scanTags_Some [OF tid]
  have ex: "\<exists>u \<in> set (AvailableTags channel). tag_Name u = repoName \<and> tid = tag_ID u"
    by blast
  note run = GetOrCreateRepoTag_found [OF getReq url fetch ok dec tid]
  have cnt: "requests_of ''GET'' [Sent getReq, BodyRead] = [getReq]"
      "requests_of ''PATCH'' [Sent getReq, BodyRead] = []"
    by (simp_all add: requests_of_def getReq)
  show ?thesis
    using ex run cnt by (simp add: requests_of_append)
qed

text \<open>The scenario of the specification: the catalog holds repoA with id 1.\<close>

theorem existing_tag_one_fetch_no_update_witness:
  \<open>fst (GetOrCreateRepoTag mock_env (NewClient ''secret'' ''1234'') ''repoA''
      \<lparr>remote = [Inr \<lparr>StatusCode = 200,
                       resp_Body = ''{"available_tags":[{"id":"1","name":"repoA"}]}''\<rparr>],
       trace = []\<rparr>) = (''1'', None)\<close>
proof -
  let ?resp = \<open>\<lparr>StatusCode = 200,
                resp_Body = ''{"available_tags":[{"id":"1","name":"repoA"}]}''\<rparr>\<close>
  let ?w = "\<lparr>remote = [Inr ?resp], trace = []\<rparr> :: (string + response) list world"
  let ?c = "NewClient ''secret'' ''1234''"
  have url: "url_Parse mock_env
      (URL \<lparr>Method = ''GET'', URL = DiscordAPIBase @ ''/channels/'' @ forumChannelID ?c,
            Header = [''Authorization'' \<mapsto> ''Bot '' @ token ?c], Body = None\<rparr>) = None"
    by (simp add: mock_env_def)
  have fetch: "httpClient_Do mock_env (remote ?w) r = (Inr ?resp, [])" for r
    by (simp add: mock_env_def mock_Do_def)
  have dec: "Unmarshal_ForumChannelResponse mock_env (resp_Body ?resp)
      = Inr \<lparr>AvailableTags = [\<lparr>tag_ID = ''1'', tag_Name = ''repoA''\<rparr>]\<rparr>"
    by (simp add: mock_env_def mock_Unmarshal_ForumChannelResponse_def)
  show ?thesis
    using existing_tag_one_fetch_no_update
      [OF refl url fetch _ dec, of "\<lparr>tag_ID = ''1'', tag_Name = ''repoA''\<rparr>" "''repoA''"]
    by auto
qed

text \<open>
  C2. Whenever the fetched channel (status 200, body decoded) lists no tag named
  \<open>repoName\<close>, the call sends exactly two requests, the GET and then one PATCH of the same
  URL, whatever the outcome of the PATCH. The body of the PATCH is the encoding of the
  document \<^verbatim>\<open>{"available_tags": [...]}\<close> holding the fetched tags followed by a tag
  with the name \<open>repoName\<close> and the empty id (the zero value of the field, written
  \<^verbatim>\<open>"id":""\<close>, since the field is not \<^verbatim>\<open>omitempty\<close>). When the PATCH is answered with
  status 200 and a body that decodes to a list holding a tag named \<open>repoName\<close>, the call
  returns the id of such a tag of the answer, with a nil error.
\<close>

theorem absent_tag_one_fetch_one_update:
  fixes env :: "'s env"
  assumes getReq: "getReq = \<lparr>Method = ''GET'',
                     URL = DiscordAPIBase @ ''/channels/'' @ forumChannelID c,
                     Header = [''Authorization'' \<mapsto> ''Bot '' @ token c], Body = None\<rparr>"
    and patchReq: "patchReq = \<lparr>Method = ''PATCH'',
                     URL = DiscordAPIBase @ ''/channels/'' @ forumChannelID c,
                     Header = [''Authorization'' \<mapsto> ''Bot '' @ token c,
                               ''Content-Type'' \<mapsto> ''application/json''],
                     Body = Some patchData\<rparr>"
    and url: "url_Parse env (URL getReq) = None"
    and fetch: "httpClient_Do env (remote w) getReq = (Inr resp, s1)"
    and ok: "StatusCode resp = 200"
    and dec: "Unmarshal_ForumChannelResponse env (resp_Body resp) = Inr channel"
    and absent: "\<forall>t \<in> set (AvailableTags channel). tag_Name t \<noteq> repoName"
    and marshal: "json_Marshal env
                    (JObj [(''available_tags'',
                            JArr (map ForumTag_json (AvailableTags channel)
                                  @ [JObj [(''id'', JStr ''''), (''name'', JStr repoName)]]))])
                  = Inr patchData"
    and update: "httpClient_Do env s1 patchReq = (out, s2)"
  shows "\<exists>r w'. GetOrCreateRepoTag env c repoName w = (r, w')
           \<and> requests (trace w') = requests (trace w) @ [getReq, patchReq]
           \<and> length (requests_of ''GET'' (trace w')) = length (requests_of ''GET'' (trace w)) + 1
           \<and> length (requests_of ''PATCH'' (trace w'))
               = length (requests_of ''PATCH'' (trace w)) + 1
           \<and> (\<forall>patchResp updated t.
                 out = Inr patchResp \<and> StatusCode patchResp = 200
                 \<and> Unmarshal_ForumChannelResponse env (resp_Body patchResp) = Inr updated
                 \<and> t \<in> set (AvailableTags updated) \<and> tag_Name t = repoName
                 \<longrightarrow> (\<exists>u \<in> set (AvailableTags updated).
                        tag_Name u = repoName \<and> r = (tag_ID u, None)))"
proof -
  from absent have scan: "scanTags repoName (AvailableTags channel) = None"
    by (simp add: scanTags_None)
  from marshal have marshal': "json_Marshal env
      (PatchBody_json (AvailableTags channel @ [\<lparr>tag_ID = '''', tag_Name = repoName\<rparr>]))
      = Inr patchData"
    by (simp add: PatchBody_json_append)
  note run = GetOrCreateRepoTag_absent [OF getReq patchReq url fetch ok dec scan marshal' update]
  let ?es = "[Sent getReq, BodyRead, Sent patchReq]
               @ (case out of Inl _ \<Rightarrow> [] | Inr _ \<Rightarrow> [BodyRead])"
  have reqs: "requests (trace w @ ?es) = requests (trace w) @ [getReq, patchReq]"
    by (cases out) (simp_all add: requests_append)
  have cnt: "requests_of ''GET'' (trace w @ ?es) = requests_of ''GET'' (trace w) @ [getReq]"
      "requests_of ''PATCH'' (trace w @ ?es) = requests_of ''PATCH'' (trace w) @ [patchReq]"
    unfolding requests_of_def reqs by (simp_all add: getReq patchReq)
  have found: "\<exists>u \<in> set (AvailableTags updated).
                 tag_Name u = repoName \<and> fst (GetOrCreateRepoTag env c repoName w) = (tag_ID u, None)"
    if "out = Inr patchResp" "StatusCode patchResp = 200"
      "Unmarshal_ForumChannelResponse env (resp_Body patchResp) = Inr updated"
      "t \<in> set (AvailableTags updated)" "tag_Name t = repoName"
    for patchResp updated t
  proof -
    from that(4,5) have "scanTags repoName (AvailableTags updated) \<noteq> None"
      by (auto simp: scanTags_None)
    then obtain tid where tid: "scanTags repoName (AvailableTags updated) = Some tid"
      by blast
    from scanTags_Some [OF tid] obtain u where
      "u \<in> set (AvailableTags updated)" "tag_Name u = repoName" "tag_ID u = tid"
      by blast
    moreover have "fst (GetOrCreateRepoTag env c repoName w) = (tid, None)"
      using that(1,2,3) tid by (simp add: run)
    ultimately show ?thesis by auto
  qed
  have tr: "trace (snd (GetOrCreateRepoTag env c repoName w)) = trace w @ ?es"
    by (simp add: run)
  show ?thesis
  proof (intro exI conjI)
    show "GetOrCreateRepoTag env c repoName w =
        (fst (GetOrCreateRepoTag env c repoName w), snd (GetOrCreateRepoTag env c repoName w))"
      by simp
    show "requests (trace (snd (GetOrCreateRepoTag env c repoName w)))
        = requests (trace w) @ [getReq, patchReq]"
      unfolding tr reqs ..
    show "length (requests_of ''GET'' (trace (snd (GetOrCreateRepoTag env c repoName w))))
        = length (requests_of ''GET'' (trace w)) + 1"
      unfolding tr cnt by simp
    show "length (requests_of ''PATCH'' (trace (snd (GetOrCreateRepoTag env c repoName w))))
        = length (requests_of ''PATCH'' (trace w)) + 1"
      unfolding tr cnt by simp
    show "\<forall>patchResp updated t.
            out = Inr patchResp \<and> StatusCode patchResp = 200
            \<and> Unmarshal_ForumChannelResponse env (resp_Body patchResp) = Inr updated
            \<and> t \<in> set (AvailableTags updated) \<and> tag_Name t = repoName
            \<longrightarrow> (\<exists>u \<in> set (AvailableTags updated).
                   tag_Name u = repoName
                   \<and> fst (GetOrCreateRepoTag env c repoName w) = (tag_ID u, None))"
      using found by blast
  qed
qed

theorem absent_tag_one_fetch_one_update_witness:
  \<open>fst (GetOrCreateRepoTag mock_env (NewClient ''secret'' ''1234'') ''repoB''
      \<lparr>remote = [Inr \<lparr>StatusCode = 200, resp_Body = ''{"available_tags":[]}''\<rparr>,
                 Inr \<lparr>StatusCode = 200,
                       resp_Body = ''{"available_tags":[{"id":"42","name":"repoB"}]}''\<rparr>],
       trace = []\<rparr>) = (''42'', None)\<close>
proof -
  let ?resp = \<open>\<lparr>StatusCode = 200, resp_Body = ''{"available_tags":[]}''\<rparr>\<close>
  let ?presp = \<open>\<lparr>StatusCode = 200,
                 resp_Body = ''{"available_tags":[{"id":"42","name":"repoB"}]}''\<rparr>\<close>
  let ?w = "\<lparr>remote = [Inr ?resp, Inr ?presp], trace = []\<rparr> :: (string + response) list world"
  let ?c = "NewClient ''secret'' ''1234''"
  have url: "url_Parse mock_env
      (URL \<lparr>Method = ''GET'', URL = DiscordAPIBase @ ''/channels/'' @ forumChannelID ?c,
            Header = [''Authorization'' \<mapsto> ''Bot '' @ token ?c], Body = None\<rparr>) = None"
    by (simp add: mock_env_def)
  have fetch: "httpClient_Do mock_env (remote ?w) r = (Inr ?resp, [Inr ?presp])" for r
    by (simp add: mock_env_def mock_Do_def)
  have dec: "Unmarshal_ForumChannelResponse mock_env (resp_Body ?resp) = Inr \<lparr>AvailableTags = []\<rparr>"
    by (simp add: mock_env_def mock_Unmarshal_ForumChannelResponse_def)
  have absent: "\<forall>t \<in> set (AvailableTags \<lparr>AvailableTags = []\<rparr>). tag_Name t \<noteq> ''repoB''"
    by simp
  have marshal: "json_Marshal mock_env
      (JObj [(''available_tags'',
              JArr (map ForumTag_json (AvailableTags \<lparr>AvailableTags = []\<rparr>)
                    @ [JObj [(''id'', JStr ''''), (''name'', JStr ''repoB'')]]))]) = Inr ''{}''"
    by (simp add: mock_env_def)
  have update: "httpClient_Do mock_env [Inr ?presp] r = (Inr ?presp, [])" for r
    by (simp add: mock_env_def mock_Do_def)
  have dec2: "Unmarshal_ForumChannelResponse mock_env (resp_Body ?presp)
      = Inr \<lparr>AvailableTags = [\<lparr>tag_ID = ''42'', tag_Name = ''repoB''\<rparr>]\<rparr>"
    by (simp add: mock_env_def mock_Unmarshal_ForumChannelResponse_def)
  show ?thesis
    using absent_tag_one_fetch_one_update
      [OF refl refl url fetch _ dec absent marshal update] dec2
    by fastforce
qed

text \<open>
  C3. When the update is answered with status 200 and a body that decodes, and the decoded
  list holds no tag named \<open>repoName\<close>, the call returns the empty string together with the
  error whose message is \<^verbatim>\<open>tag created but not found in response\<close>.
\<close>

theorem created_tag_missing_from_response:
  fixes env :: "'s env"
  assumes getReq: "getReq = \<lparr>Method = ''GET'',
                     URL = DiscordAPIBase @ ''/channels/'' @ forumChannelID c,
                     Header = [''Authorization'' \<mapsto> ''Bot '' @ token c], Body = None\<rparr>"
    and patchReq: "patchReq = \<lparr>Method = ''PATCH'',
                     URL = DiscordAPIBase @ ''/channels/'' @ forumChannelID c,
                     Header = [''Authorization'' \<mapsto> ''Bot '' @ token c,
                               ''Content-Type'' \<mapsto> ''application/json''],
                     Body = Some patchData\<rparr>"
    and url: "url_Parse env (URL getReq) = None"
    and fetch: "httpClient_Do env (remote w) getReq = (Inr resp, s1)"
    and ok: "StatusCode resp = 200"
    and dec: "Unmarshal_ForumChannelResponse env (resp_Body resp) = Inr channel"
    and absent: "\<forall>t \<in> set (AvailableTags channel). tag_Name t \<noteq> repoName"
    and marshal: "json_Marshal env
                    (PatchBody_json (AvailableTags channel @ [\<lparr>tag_ID = '''', tag_Name = repoName\<rparr>]))
                  = Inr patchData"
    and update: "httpClient_Do env s1 patchReq = (Inr patchResp, s2)"
    and pok: "StatusCode patchResp = 200"
    and pdec: "Unmarshal_ForumChannelResponse env (resp_Body patchResp) = Inr updated"
    and missing: "\<forall>t \<in> set (AvailableTags updated). tag_Name t \<noteq> repoName"
  shows "fst (GetOrCreateRepoTag env c repoName w) = ('''', Some TagCreatedNotFound)
         \<and> Error TagCreatedNotFound = ''tag created but not found in response''"
proof -
  from absent have scan: "scanTags repoName (AvailableTags channel) = None"
    by (simp add: scanTags_None)
  from missing have rescan: "scanTags repoName (AvailableTags updated) = None"
    by (simp add: scanTags_None)
  show ?thesis
    using pok pdec rescan
    by (simp add: GetOrCreateRepoTag_absent
        [OF getReq patchReq url fetch ok dec scan marshal update])
qed

text \<open>
  The update answers with a catalog that holds repoA only.
\<close>

theorem created_tag_missing_from_response_witness:
  \<open>fst (GetOrCreateRepoTag mock_env (NewClient ''secret'' ''1234'') ''repoB''
      \<lparr>remote = [Inr \<lparr>StatusCode = 200, resp_Body = ''{"available_tags":[]}''\<rparr>,
                 Inr \<lparr>StatusCode = 200,
                       resp_Body = ''{"available_tags":[{"id":"1","name":"repoA"}]}''\<rparr>],
       trace = []\<rparr>) = ('''', Some TagCreatedNotFound)\<close>
proof -
  let ?resp = \<open>\<lparr>StatusCode = 200, resp_Body = ''{"available_tags":[]}''\<rparr>\<close>
  let ?presp = \<open>\<lparr>StatusCode = 200,
                 resp_Body = ''{"available_tags":[{"id":"1","name":"repoA"}]}''\<rparr>\<close>
  let ?w = "\<lparr>remote = [Inr ?resp, Inr ?presp], trace = []\<rparr> :: (string + response) list world"
  let ?c = "NewClient ''secret'' ''1234''"
  have url: "url_Parse mock_env
      (URL \<lparr>Method = ''GET'', URL = DiscordAPIBase @ ''/channels/'' @ forumChannelID ?c,
            Header = [''Authorization'' \<mapsto> ''Bot '' @ token ?c], Body = None\<rparr>) = None"
    by (simp add: mock_env_def)
  have fetch: "httpClient_Do mock_env (remote ?w) r = (Inr ?resp, [Inr ?presp])" for r
    by (simp add: mock_env_def mock_Do_def)
  have dec: "Unmarshal_ForumChannelResponse mock_env (resp_Body ?resp) = Inr \<lparr>AvailableTags = []\<rparr>"
    by (simp add: mock_env_def mock_Unmarshal_ForumChannelResponse_def)
  have absent: "\<forall>t \<in> set (AvailableTags \<lparr>AvailableTags = []\<rparr>). tag_Name t \<noteq> ''repoB''"
    by simp
  have marshal: "json_Marshal mock_env
      (PatchBody_json (AvailableTags \<lparr>AvailableTags = []\<rparr> @ [\<lparr>tag_ID = '''', tag_Name = ''repoB''\<rparr>]))
      = Inr ''{}''"
    by (simp add: mock_env_def PatchBody_json_def ForumTag_json_def)
  have update: "httpClient_Do mock_env [Inr ?presp] r = (Inr ?presp, [])" for r
    by (simp add: mock_env_def mock_Do_def)
  have pdec: "Unmarshal_ForumChannelResponse mock_env (resp_Body ?presp)
      = Inr \<lparr>AvailableTags = [\<lparr>tag_ID = ''1'', tag_Name = ''repoA''\<rparr>]\<rparr>"
    by (simp add: mock_env_def mock_Unmarshal_ForumChannelResponse_def)
  have missing: "\<forall>t \<in> set (AvailableTags \<lparr>AvailableTags = [\<lparr>tag_ID = ''1'', tag_Name = ''repoA''\<rparr>]\<rparr>).
                   tag_Name t \<noteq> ''repoB''"
    by simp
  show ?thesis
    using created_tag_missing_from_response
      [OF refl refl url fetch _ dec absent marshal update _ pdec missing]
    by simp
qed

text \<open>
  C8. When the fetch fails in the transport, or is answered with a status other than 200,
  or with a body that does not decode, the call returns the empty string and an error,
  the only request it has sent is the GET (no PATCH), and the remote side is left in the
  state the GET left it in.
\<close>

theorem failed_read_phase_sends_no_update:
  fixes env :: "'s env"
  assumes getReq: "getReq = \<lparr>Method = ''GET'',
                     URL = DiscordAPIBase @ ''/channels/'' @ forumChannelID c,
                     Header = [''Authorization'' \<mapsto> ''Bot '' @ token c], Body = None\<rparr>"
    and url: "url_Parse env (URL getReq) = None"
    and fetch: "httpClient_Do env (remote w) getReq = (out, s1)"
    and failed: "(\<exists>e. out = Inl e)
                 \<or> (\<exists>resp. out = Inr resp
                       \<and> (StatusCode resp \<noteq> 200
                           \<or> (\<exists>e. Unmarshal_ForumChannelResponse env (resp_Body resp) = Inl e)))"
  shows "\<exists>err w'. GetOrCreateRepoTag env c repoName w = (('''', Some err), w')
           \<and> requests (trace w') = requests (trace w) @ [getReq]
           \<and> requests_of ''PATCH'' (trace w') = requests_of ''PATCH'' (trace w)
           \<and> remote w' = s1"
proof -
  have get: "requests_of ''PATCH'' [Sent getReq] = []"
      "requests_of ''PATCH'' [Sent getReq, BodyRead] = []"
    by (simp_all add: requests_of_def getReq)
  from failed consider
      (transport) e where "out = Inl e"
    | (status) resp where "out = Inr resp" "StatusCode resp \<noteq> 200"
    | (decode) resp e where "out = Inr resp" "StatusCode resp = 200"
        "Unmarshal_ForumChannelResponse env (resp_Body resp) = Inl e"
    by blast
  then show ?thesis
  proof cases
    case transport
    have "GetOrCreateRepoTag env c repoName w =
        (('''', Some (FailedToGetChannel e)), \<lparr>remote = s1, trace = trace w @ [Sent getReq]\<rparr>)"
      using url fetch transport unfolding getReq
      by (simp add: GetOrCreateRepoTag_def NewRequest_def Header_Set_def Do_def Let_def)
    then show ?thesis
      using get by (simp add: requests_append requests_of_append)
  next
    case status
    have "GetOrCreateRepoTag env c repoName w =
        (('''', Some (APIError (StatusCode resp) (resp_Body resp))),
         \<lparr>remote = s1, trace = trace w @ [Sent getReq, BodyRead]\<rparr>)"
      using url fetch status unfolding getReq
      by (simp add: GetOrCreateRepoTag_def NewRequest_def Header_Set_def Do_def ReadAll_def
          Let_def)
    then show ?thesis
      using get by (simp add: requests_append requests_of_append)
  next
    case decode
    have "GetOrCreateRepoTag env c repoName w =
        (('''', Some (FailedToParseChannel e)),
         \<lparr>remote = s1, trace = trace w @ [Sent getReq, BodyRead]\<rparr>)"
      using url fetch decode unfolding getReq
      by (simp add: GetOrCreateRepoTag_def NewRequest_def Header_Set_def Do_def ReadAll_def
          Let_def)
    then show ?thesis
      using get by (simp add: requests_append requests_of_append)
  qed
qed

text \<open>
  A fetch answered with 403, a fetch that the transport refuses, and a fetch answered
  with a page that is no JSON: the canned answer meant for an update stays unused.
\<close>

theorem failed_read_phase_sends_no_update_witness:
  \<open>GetOrCreateRepoTag mock_env (NewClient ''secret'' ''1234'') ''repoA''
      \<lparr>remote = [Inr \<lparr>StatusCode = 403, resp_Body = ''Missing Access''\<rparr>,
                 Inr \<lparr>StatusCode = 200, resp_Body = ''{"available_tags":[]}''\<rparr>],
       trace = []\<rparr>
   = (('''', Some (APIError 403 ''Missing Access'')),
      \<lparr>remote = [Inr \<lparr>StatusCode = 200, resp_Body = ''{"available_tags":[]}''\<rparr>],
       trace = [Sent \<lparr>Method = ''GET'',
                      URL = ''https://discord.com/api/v10/channels/1234'',
                      Header = [''Authorization'' \<mapsto> ''Bot secret''], Body = None\<rparr>,
                BodyRead]\<rparr>)
   \<and> GetOrCreateRepoTag mock_env (NewClient ''secret'' ''1234'') ''repoA''
      \<lparr>remote = [], trace = []\<rparr>
   = (('''', Some (FailedToGetChannel ''connection refused'')),
      \<lparr>remote = [],
       trace = [Sent \<lparr>Method = ''GET'',
                      URL = ''https://discord.com/api/v10/channels/1234'',
                      Header = [''Authorization'' \<mapsto> ''Bot secret''], Body = None\<rparr>]\<rparr>)
   \<and> GetOrCreateRepoTag mock_env (NewClient ''secret'' ''1234'') ''repoA''
      \<lparr>remote = [Inr \<lparr>StatusCode = 200, resp_Body = ''<html>''\<rparr>,
                 Inr \<lparr>StatusCode = 200, resp_Body = ''{"available_tags":[]}''\<rparr>],
       trace = []\<rparr>
   = (('''', Some (FailedToParseChannel ''invalid character'')),
      \<lparr>remote = [Inr \<lparr>StatusCode = 200, resp_Body = ''{"available_tags":[]}''\<rparr>],
       trace = [Sent \<lparr>Method = ''GET'',
                      URL = ''https://discord.com/api/v10/channels/1234'',
                      Header = [''Authorization'' \<mapsto> ''Bot secret''], Body = None\<rparr>,
                BodyRead]\<rparr>)\<close>
proof -
  let ?denied = \<open>\<lparr>StatusCode = 403, resp_Body = ''Missing Access''\<rparr>\<close>
  let ?page = \<open>\<lparr>StatusCode = 200, resp_Body = ''<html>''\<rparr>\<close>
  let ?next = \<open>[Inr \<lparr>StatusCode = 200, resp_Body = ''{"available_tags":[]}''\<rparr>]
                :: (string + response) list\<close>
  let ?w1 = "\<lparr>remote = Inr ?denied # ?next, trace = []\<rparr> :: (string + response) list world"
  let ?w2 = "\<lparr>remote = [], trace = []\<rparr> :: (string + response) list world"
  let ?w3 = "\<lparr>remote = Inr ?page # ?next, trace = []\<rparr> :: (string + response) list world"
  let ?c = "NewClient ''secret'' ''1234''"
  have url: "url_Parse mock_env
      (URL \<lparr>Method = ''GET'', URL = DiscordAPIBase @ ''/channels/'' @ forumChannelID ?c,
            Header = [''Authorization'' \<mapsto> ''Bot '' @ token ?c], Body = None\<rparr>) = None"
    by (simp add: mock_env_def)
  have fetch1: "httpClient_Do mock_env (remote ?w1) r = (Inr ?denied, ?next)" for r
    by (simp add: mock_env_def mock_Do_def)
  have fetch2: "httpClient_Do mock_env (remote ?w2) r = (Inl ''connection refused'', [])" for r
    by (simp add: mock_env_def mock_Do_def)
  have fetch3: "httpClient_Do mock_env (remote ?w3) r = (Inr ?page, ?next)" for r
    by (simp add: mock_env_def mock_Do_def)
  have failed1: "(\<exists>e. (Inr ?denied :: string + response) = Inl e)
                 \<or> (\<exists>resp. (Inr ?denied :: string + response) = Inr resp
                       \<and> (StatusCode resp \<noteq> 200
                           \<or> (\<exists>e. Unmarshal_ForumChannelResponse mock_env (resp_Body resp) = Inl e)))"
    by simp
  have failed2: "(\<exists>e. (Inl ''connection refused'' :: string + response) = Inl e)
                 \<or> (\<exists>resp. (Inl ''connection refused'' :: string + response) = Inr resp
                       \<and> (StatusCode resp \<noteq> 200
                           \<or> (\<exists>e. Unmarshal_ForumChannelResponse mock_env (resp_Body resp) = Inl e)))"
    by simp
  have failed3: "(\<exists>e. (Inr ?page :: string + response) = Inl e)
                 \<or> (\<exists>resp. (Inr ?page :: string + response) = Inr resp
                       \<and> (StatusCode resp \<noteq> 200
                           \<or> (\<exists>e. Unmarshal_ForumChannelResponse mock_env (resp_Body resp) = Inl e)))"
    by (simp add: mock_env_def mock_Unmarshal_ForumChannelResponse_def)
  show ?thesis
    using failed_read_phase_sends_no_update [OF refl url fetch1 failed1, of "''repoA''"]
      failed_read_phase_sends_no_update [OF refl url fetch2 failed2, of "''repoA''"]
      failed_read_phase_sends_no_update [OF refl url fetch3 failed3, of "''repoA''"]
    by (simp add: GetOrCreateRepoTag_def NewRequest_def Header_Set_def Do_def ReadAll_def
        Let_def mock_env_def mock_Do_def mock_Unmarshal_ForumChannelResponse_def
        NewClient_def DiscordAPIBase_def)
qed

text \<open>
  C10. When the decoded list holds several tags named \<open>repoName\<close>, the id returned is
  that of the first of them in list order: the list is \<open>pre @ t # post\<close> with no tag of
  that name in \<open>pre\<close>, and nothing is asked of \<open>post\<close>. This holds for the scan of the
  fetched list and for the scan of the list in the answer to the update.
\<close>

theorem first_matching_tag_is_returned:
  fixes env :: "'s env"
  assumes getReq: "getReq = \<lparr>Method = ''GET'',
                     URL = DiscordAPIBase @ ''/channels/'' @ forumChannelID c,
                     Header = [''Authorization'' \<mapsto> ''Bot '' @ token c], Body = None\<rparr>"
    and url: "url_Parse env (URL getReq) = None"
    and fetch: "httpClient_Do env (remote w) getReq = (Inr resp, s1)"
    and ok: "StatusCode resp = 200"
    and dec: "Unmarshal_ForumChannelResponse env (resp_Body resp) = Inr channel"
  shows "(AvailableTags channel = pre @ t # post
          \<and> (\<forall>u \<in> set pre. tag_Name u \<noteq> repoName) \<and> tag_Name t = repoName
          \<longrightarrow> fst (GetOrCreateRepoTag env c repoName w) = (tag_ID t, None))
       \<and> ((\<forall>u \<in> set (AvailableTags channel). tag_Name u \<noteq> repoName)
          \<and> patchReq = \<lparr>Method = ''PATCH'',
                         URL = DiscordAPIBase @ ''/channels/'' @ forumChannelID c,
                         Header = [''Authorization'' \<mapsto> ''Bot '' @ token c,
                                   ''Content-Type'' \<mapsto> ''application/json''],
                         Body = Some patchData\<rparr>
          \<and> json_Marshal env
               (PatchBody_json (AvailableTags channel @ [\<lparr>tag_ID = '''', tag_Name = repoName\<rparr>]))
              = Inr patchData
          \<and> httpClient_Do env s1 patchReq = (Inr patchResp, s2)
          \<and> StatusCode patchResp = 200
          \<and> Unmarshal_ForumChannelResponse env (resp_Body patchResp) = Inr updated
          \<and> AvailableTags updated = pre' @ t' # post'
          \<and> (\<forall>u \<in> set pre'. tag_Name u \<noteq> repoName) \<and> tag_Name t' = repoName
          \<longrightarrow> fst (GetOrCreateRepoTag env c repoName w) = (tag_ID t', None))"
proof (intro conjI impI)
  assume "AvailableTags channel = pre @ t # post
          \<and> (\<forall>u \<in> set pre. tag_Name u \<noteq> repoName) \<and> tag_Name t = repoName"
  then have "scanTags repoName (AvailableTags channel) = Some (tag_ID t)"
    by (simp add: scanTags_first)
  from GetOrCreateRepoTag_found [OF getReq url fetch ok dec this]
  show "fst (GetOrCreateRepoTag env c repoName w) = (tag_ID t, None)"
    by simp
next
  assume a: "(\<forall>u \<in> set (AvailableTags channel). tag_Name u \<noteq> repoName)
          \<and> patchReq = \<lparr>Method = ''PATCH'',
                         URL = DiscordAPIBase @ ''/channels/'' @ forumChannelID c,
                         Header = [''Authorization'' \<mapsto> ''Bot '' @ token c,
                                   ''Content-Type'' \<mapsto> ''application/json''],
                         Body = Some patchData\<rparr>
          \<and> json_Marshal env
               (PatchBody_json (AvailableTags channel @ [\<lparr>tag_ID = '''', tag_Name = repoName\<rparr>]))
              = Inr patchData
          \<and> httpClient_Do env s1 patchReq = (Inr patchResp, s2)
          \<and> StatusCode patchResp = 200
          \<and> Unmarshal_ForumChannelResponse env (resp_Body patchResp) = Inr updated
          \<and> AvailableTags updated = pre' @ t' # post'
          \<and> (\<forall>u \<in> set pre'. tag_Name u \<noteq> repoName) \<and> tag_Name t' = repoName"
  then have scan: "scanTags repoName (AvailableTags channel) = None"
    by (simp add: scanTags_None)
  from a have rescan: "scanTags repoName (AvailableTags updated) = Some (tag_ID t')"
    by (simp add: scanTags_first)
  from a have patchReq: "patchReq = \<lparr>Method = ''PATCH'',
                         URL = DiscordAPIBase @ ''/channels/'' @ forumChannelID c,
                         Header = [''Authorization'' \<mapsto> ''Bot '' @ token c,
                                   ''Content-Type'' \<mapsto> ''application/json''],
                         Body = Some patchData\<rparr>"
    and marshal: "json_Marshal env
               (PatchBody_json (AvailableTags channel @ [\<lparr>tag_ID = '''', tag_Name = repoName\<rparr>]))
              = Inr patchData"
    and update: "httpClient_Do env s1 patchReq = (Inr patchResp, s2)"
    and pok: "StatusCode patchResp = 200"
    and pdec: "Unmarshal_ForumChannelResponse env (resp_Body patchResp) = Inr updated"
    by blast+
  show "fst (GetOrCreateRepoTag env c repoName w) = (tag_ID t', None)"
    using pok pdec rescan
    by (simp add: GetOrCreateRepoTag_absent
        [OF getReq patchReq url fetch ok dec scan marshal update])
qed

text \<open>
  Two tags named repoC, with ids 7 and 8, in the fetched list, and then in the answer to
  the update.
\<close>

theorem first_matching_tag_is_returned_witness:
  \<open>fst (GetOrCreateRepoTag mock_env (NewClient ''secret'' ''1234'') ''repoC''
      \<lparr>remote = [Inr \<lparr>StatusCode = 200,
           resp_Body = ''{"available_tags":[{"id":"7","name":"repoC"},{"id":"8","name":"repoC"}]}''\<rparr>],
       trace = []\<rparr>) = (''7'', None)
   \<and> fst (GetOrCreateRepoTag mock_env (NewClient ''secret'' ''1234'') ''repoC''
      \<lparr>remote = [Inr \<lparr>StatusCode = 200, resp_Body = ''{"available_tags":[]}''\<rparr>,
                 Inr \<lparr>StatusCode = 200,
           resp_Body = ''{"available_tags":[{"id":"7","name":"repoC"},{"id":"8","name":"repoC"}]}''\<rparr>],
       trace = []\<rparr>) = (''7'', None)\<close>
proof -
  let ?dup = \<open>\<lparr>StatusCode = 200,
      resp_Body = ''{"available_tags":[{"id":"7","name":"repoC"},{"id":"8","name":"repoC"}]}''\<rparr>\<close>
  let ?empty = \<open>\<lparr>StatusCode = 200, resp_Body = ''{"available_tags":[]}''\<rparr>\<close>
  let ?c = "NewClient ''secret'' ''1234''"
  let ?t7 = "\<lparr>tag_ID = ''7'', tag_Name = ''repoC''\<rparr>"
  let ?t8 = "\<lparr>tag_ID = ''8'', tag_Name = ''repoC''\<rparr>"
  let ?w1 = "\<lparr>remote = [Inr ?dup], trace = []\<rparr> :: (string + response) list world"
  let ?w2 = "\<lparr>remote = [Inr ?empty, Inr ?dup], trace = []\<rparr> :: (string + response) list world"
  have url: "url_Parse mock_env
      (URL \<lparr>Method = ''GET'', URL = DiscordAPIBase @ ''/channels/'' @ forumChannelID ?c,
            Header = [''Authorization'' \<mapsto> ''Bot '' @ token ?c], Body = None\<rparr>) = None"
    by (simp add: mock_env_def)
  have dup: "Unmarshal_ForumChannelResponse mock_env (resp_Body ?dup)
      = Inr \<lparr>AvailableTags = [?t7, ?t8]\<rparr>"
    by (simp add: mock_env_def mock_Unmarshal_ForumChannelResponse_def)
  have empty: "Unmarshal_ForumChannelResponse mock_env (resp_Body ?empty)
      = Inr \<lparr>AvailableTags = []\<rparr>"
    by (simp add: mock_env_def mock_Unmarshal_ForumChannelResponse_def)
  have fetch1: "httpClient_Do mock_env (remote ?w1) r = (Inr ?dup, [])" for r
    by (simp add: mock_env_def mock_Do_def)
  have fetch2: "httpClient_Do mock_env (remote ?w2) r = (Inr ?empty, [Inr ?dup])" for r
    by (simp add: mock_env_def mock_Do_def)
  have update: "httpClient_Do mock_env [Inr ?dup] r = (Inr ?dup, [])" for r
    by (simp add: mock_env_def mock_Do_def)
  have marshal: "json_Marshal mock_env
      (PatchBody_json (AvailableTags \<lparr>AvailableTags = []\<rparr> @ [\<lparr>tag_ID = '''', tag_Name = ''repoC''\<rparr>]))
      = Inr ''{}''"
    by (simp add: mock_env_def PatchBody_json_def ForumTag_json_def)
  have first: "fst (GetOrCreateRepoTag mock_env ?c ''repoC'' ?w1) = (''7'', None)"
    using first_matching_tag_is_returned
      [OF refl url fetch1 _ dup, of "[]" ?t7 "[?t8]" "''repoC''"]
    by simp
  have second: "fst (GetOrCreateRepoTag mock_env ?c ''repoC'' ?w2) = (''7'', None)"
    using first_matching_tag_is_returned
      [OF refl url fetch2 _ empty,
        where repoName = "''repoC''" and patchData = "''{}''" and patchResp = ?dup
          and ?s2.0 = "[]" and updated = "\<lparr>AvailableTags = [?t7, ?t8]\<rparr>"
          and pre' = "[]" and t' = ?t7 and post' = "[?t8]"]
      marshal update dup
    by simp
  from first second show ?thesis by simp
qed

subsection \<open>CreateThread, PostMessage and ArchiveThread once a response has arrived\<close>

lemma CreateThread_answered:
  fixes env :: "'s env"
  assumes req: "req = \<lparr>Method = ''POST'',
                  URL = DiscordAPIBase @ ''/channels/'' @ forumChannelID c @ ''/threads'',
                  Header = [''Authorization'' \<mapsto> ''Bot '' @ token c,
                            ''Content-Type'' \<mapsto> ''application/json''],
                  Body = Some jsonData\<rparr>"
    and marshal: "json_Marshal env
                    (CreateThreadRequest_json
                       \<lparr>ctr_Name = title, ctr_Message = message, ctr_AppliedTags = tagIDs\<rparr>)
                  = Inr jsonData"
    and url: "url_Parse env (URL req) = None"
    and send: "httpClient_Do env (remote w) req = (Inr resp, s1)"
  shows "CreateThread env c title message tagIDs w =
      ((if StatusCode resp \<noteq> 201
        then ('''', Some (APIError (StatusCode resp) (resp_Body resp)))
        else (case Unmarshal_CreateThreadResponse env (resp_Body resp) of
                Inl err \<Rightarrow> ('''', Some (FailedToParseResponse err))
              | Inr result \<Rightarrow> (thread_ID result, None))),
       \<lparr>remote = s1, trace = trace w @ [Sent req, BodyRead]\<rparr>)"
  using marshal url send unfolding req
  by (simp add: CreateThread_def NewRequest_def Header_Set_def Do_def ReadAll_def Let_def
      split: sum.splits)

lemma PostMessage_answered:
  fixes env :: "'s env"
  assumes req: "req = \<lparr>Method = ''POST'',
                  URL = DiscordAPIBase @ ''/channels/'' @ threadID @ ''/messages'',
                  Header = [''Authorization'' \<mapsto> ''Bot '' @ token c,
                            ''Content-Type'' \<mapsto> ''application/json''],
                  Body = Some jsonData\<rparr>"
    and marshal: "json_Marshal env (ThreadMessage_json message) = Inr jsonData"
    and url: "url_Parse env (URL req) = None"
    and send: "httpClient_Do env (remote w) req = (Inr resp, s1)"
  shows "PostMessage env c threadID message w =
      (if StatusCode resp \<noteq> 200 \<and> StatusCode resp \<noteq> 201
       then (Some (APIError (StatusCode resp) (resp_Body resp)),
             \<lparr>remote = s1, trace = trace w @ [Sent req, BodyRead]\<rparr>)
       else (None, \<lparr>remote = s1, trace = trace w @ [Sent req]\<rparr>))"
  using marshal url send unfolding req
  by (simp add: PostMessage_def NewRequest_def Header_Set_def Do_def ReadAll_def Let_def)

lemma ArchiveThread_answered:
  fixes env :: "'s env"
  assumes req: "req = \<lparr>Method = ''PATCH'',
                  URL = DiscordAPIBase @ ''/channels/'' @ threadID,
                  Header = [''Authorization'' \<mapsto> ''Bot '' @ token c,
                            ''Content-Type'' \<mapsto> ''application/json''],
                  Body = Some jsonData\<rparr>"
    and marshal: "json_Marshal env (JObj [(''archived'', JBool True)]) = Inr jsonData"
    and url: "url_Parse env (URL req) = None"
    and send: "httpClient_Do env (remote w) req = (Inr resp, s1)"
  shows "ArchiveThread env c threadID w =
      (if StatusCode resp \<noteq> 200
       then (Some (APIError (StatusCode resp) (resp_Body resp)),
             \<lparr>remote = s1, trace = trace w @ [Sent req, BodyRead]\<rparr>)
       else (None, \<lparr>remote = s1, trace = trace w @ [Sent req]\<rparr>))"
  using marshal url send unfolding req
  by (simp add: ArchiveThread_def ArchiveThreadRequest_json_def NewRequest_def Header_Set_def
      Do_def ReadAll_def Let_def)

lemma itoa_403: "itoa 403 = ''403''"
  by (simp add: itoa_def digits.simps)

text \<open>
  C4. For every title, message and list of tag ids, once the creation request has been
  answered: with status 201 and a body that decodes, \<open>CreateThread\<close> returns the id of
  the decoded response and a nil error; with any other status it returns the empty string
  and the error whose message is \<^verbatim>\<open>discord API error (status %d): %s\<close>, filled with the
  status code in decimal and the body as it was read.
\<close>

theorem CreateThread_id_on_201_error_otherwise:
  fixes env :: "'s env"
  assumes req: "req = \<lparr>Method = ''POST'',
                  URL = DiscordAPIBase @ ''/channels/'' @ forumChannelID c @ ''/threads'',
                  Header = [''Authorization'' \<mapsto> ''Bot '' @ token c,
                            ''Content-Type'' \<mapsto> ''application/json''],
                  Body = Some jsonData\<rparr>"
    and marshal: "json_Marshal env
                    (CreateThreadRequest_json
                       \<lparr>ctr_Name = title, ctr_Message = message, ctr_AppliedTags = tagIDs\<rparr>)
                  = Inr jsonData"
    and url: "url_Parse env (URL req) = None"
    and send: "httpClient_Do env (remote w) req = (Inr resp, s1)"
  shows "(StatusCode resp = 201 \<longrightarrow>
            (\<forall>result. Unmarshal_CreateThreadResponse env (resp_Body resp) = Inr result
               \<longrightarrow> fst (CreateThread env c title message tagIDs w) = (thread_ID result, None)))
       \<and> (StatusCode resp \<noteq> 201 \<longrightarrow>
            (\<exists>err. fst (CreateThread env c title message tagIDs w) = ('''', Some err)
               \<and> err = APIError (StatusCode resp) (resp_Body resp)
               \<and> Error err = ''discord API error (status '' @ itoa (StatusCode resp) @ ''): ''
                              @ resp_Body resp))"
  by (simp add: CreateThread_answered [OF req marshal url send])

text \<open>
  The scenario of the specification (201 with id 999), and an answer with status 403.
\<close>

theorem CreateThread_id_on_201_error_otherwise_witness:
  \<open>fst (CreateThread mock_env (NewClient ''secret'' ''1234'') ''Issue #1''
          \<lparr>msg_Content = ''body'', msg_Embeds = []\<rparr> []
          \<lparr>remote = [Inr \<lparr>StatusCode = 201, resp_Body = ''{"id":"999","name":"Issue #1"}''\<rparr>],
           trace = []\<rparr>) = (''999'', None)
   \<and> (\<exists>err. fst (CreateThread mock_env (NewClient ''secret'' ''1234'') ''Issue #1''
          \<lparr>msg_Content = ''body'', msg_Embeds = []\<rparr> []
          \<lparr>remote = [Inr \<lparr>StatusCode = 403, resp_Body = ''Missing Access''\<rparr>],
           trace = []\<rparr>) = ('''', Some err)
        \<and> Error err = ''discord API error (status 403): Missing Access'')\<close>
proof -
  let ?created = \<open>\<lparr>StatusCode = 201, resp_Body = ''{"id":"999","name":"Issue #1"}''\<rparr>\<close>
  let ?denied = \<open>\<lparr>StatusCode = 403, resp_Body = ''Missing Access''\<rparr>\<close>
  let ?c = "NewClient ''secret'' ''1234''"
  let ?m = "\<lparr>msg_Content = ''body'', msg_Embeds = []\<rparr>"
  let ?w1 = "\<lparr>remote = [Inr ?created], trace = []\<rparr> :: (string + response) list world"
  let ?w2 = "\<lparr>remote = [Inr ?denied], trace = []\<rparr> :: (string + response) list world"
  have marshal: "json_Marshal mock_env
      (CreateThreadRequest_json \<lparr>ctr_Name = ''Issue #1'', ctr_Message = ?m, ctr_AppliedTags = []\<rparr>)
      = Inr ''{}''"
    by (simp add: mock_env_def CreateThreadRequest_json_def)
  have url: "url_Parse mock_env
      (URL \<lparr>Method = ''POST'',
            URL = DiscordAPIBase @ ''/channels/'' @ forumChannelID ?c @ ''/threads'',
            Header = [''Authorization'' \<mapsto> ''Bot '' @ token ?c,
                      ''Content-Type'' \<mapsto> ''application/json''],
            Body = Some ''{}''\<rparr>) = None"
    by (simp add: mock_env_def)
  have send1: "httpClient_Do mock_env (remote ?w1) r = (Inr ?created, [])" for r
    by (simp add: mock_env_def mock_Do_def)
  have send2: "httpClient_Do mock_env (remote ?w2) r = (Inr ?denied, [])" for r
    by (simp add: mock_env_def mock_Do_def)
  have dec: "Unmarshal_CreateThreadResponse mock_env (resp_Body ?created)
      = Inr \<lparr>thread_ID = ''999'', thread_Name = ''Issue #1''\<rparr>"
    by (simp add: mock_env_def mock_Unmarshal_CreateThreadResponse_def)
  have created: "fst (CreateThread mock_env ?c ''Issue #1'' ?m [] ?w1) = (''999'', None)"
    using CreateThread_id_on_201_error_otherwise [OF refl marshal url send1] dec
    by simp
  have denied: "\<exists>err. fst (CreateThread mock_env ?c ''Issue #1'' ?m [] ?w2) = ('''', Some err)
        \<and> Error err = ''discord API error (status 403): Missing Access''"
    using CreateThread_id_on_201_error_otherwise [OF refl marshal url send2]
    by (simp add: itoa_403)
  from created denied show ?thesis by simp
qed

text \<open>
  C9. When the creation request is answered with status 201 and the body decodes to a
  response whose id is the empty string (what \<^verbatim>\<open>json.Unmarshal\<close> leaves in a field that
  the document does not set, or sets to the empty string), \<open>CreateThread\<close> returns the
  empty string with a nil error: the id is not checked.
\<close>

theorem CreateThread_empty_id_not_rejected:
  fixes env :: "'s env"
  assumes req: "req = \<lparr>Method = ''POST'',
                  URL = DiscordAPIBase @ ''/channels/'' @ forumChannelID c @ ''/threads'',
                  Header = [''Authorization'' \<mapsto> ''Bot '' @ token c,
                            ''Content-Type'' \<mapsto> ''application/json''],
                  Body = Some jsonData\<rparr>"
    and marshal: "json_Marshal env
                    (CreateThreadRequest_json
                       \<lparr>ctr_Name = title, ctr_Message = message, ctr_AppliedTags = tagIDs\<rparr>)
                  = Inr jsonData"
    and url: "url_Parse env (URL req) = None"
    and send: "httpClient_Do env (remote w) req = (Inr resp, s1)"
    and created: "StatusCode resp = 201"
    and dec: "Unmarshal_CreateThreadResponse env (resp_Body resp) = Inr result"
    and empty: "thread_ID result = ''''"
  shows "fst (CreateThread env c title message tagIDs w) = ('''', None)"
  using created dec empty by (simp add: CreateThread_answered [OF req marshal url send])

text \<open>
  A 201 answer whose document has a name and no id.
\<close>

theorem CreateThread_empty_id_not_rejected_witness:
  \<open>fst (CreateThread mock_env (NewClient ''secret'' ''1234'') ''Issue #1''
          \<lparr>msg_Content = ''body'', msg_Embeds = []\<rparr> []
          \<lparr>remote = [Inr \<lparr>StatusCode = 201, resp_Body = ''{"name":"Issue #1"}''\<rparr>],
           trace = []\<rparr>) = ('''', None)\<close>
proof -
  let ?created = \<open>\<lparr>StatusCode = 201, resp_Body = ''{"name":"Issue #1"}''\<rparr>\<close>
  let ?c = "NewClient ''secret'' ''1234''"
  let ?m = "\<lparr>msg_Content = ''body'', msg_Embeds = []\<rparr>"
  let ?w = "\<lparr>remote = [Inr ?created], trace = []\<rparr> :: (string + response) list world"
  have marshal: "json_Marshal mock_env
      (CreateThreadRequest_json \<lparr>ctr_Name = ''Issue #1'', ctr_Message = ?m, ctr_AppliedTags = []\<rparr>)
      = Inr ''{}''"
    by (simp add: mock_env_def CreateThreadRequest_json_def)
  have url: "url_Parse mock_env
      (URL \<lparr>Method = ''POST'',
            URL = DiscordAPIBase @ ''/channels/'' @ forumChannelID ?c @ ''/threads'',
            Header = [''Authorization'' \<mapsto> ''Bot '' @ token ?c,
                      ''Content-Type'' \<mapsto> ''application/json''],
            Body = Some ''{}''\<rparr>) = None"
    by (simp add: mock_env_def)
  have send: "httpClient_Do mock_env (remote ?w) r = (Inr ?created, [])" for r
    by (simp add: mock_env_def mock_Do_def)
  have dec: "Unmarshal_CreateThreadResponse mock_env (resp_Body ?created)
      = Inr \<lparr>thread_ID = '''', thread_Name = ''Issue #1''\<rparr>"
    by (simp add: mock_env_def mock_Unmarshal_CreateThreadResponse_def)
  show ?thesis
    using CreateThread_empty_id_not_rejected [OF refl marshal url send _ dec]
    by simp
qed

text \<open>
  C5. For every thread id and message, once the request has been answered:
  \<open>PostMessage\<close> returns the nil error exactly when the status is 200 or 201, and then the
  call adds the request alone to the trace, with no read of the response body; with any
  other status it returns the error made of the status code and the body.
\<close>

theorem PostMessage_succeeds_on_200_or_201:
  fixes env :: "'s env"
  assumes req: "req = \<lparr>Method = ''POST'',
                  URL = DiscordAPIBase @ ''/channels/'' @ threadID @ ''/messages'',
                  Header = [''Authorization'' \<mapsto> ''Bot '' @ token c,
                            ''Content-Type'' \<mapsto> ''application/json''],
                  Body = Some jsonData\<rparr>"
    and marshal: "json_Marshal env (ThreadMessage_json message) = Inr jsonData"
    and url: "url_Parse env (URL req) = None"
    and send: "httpClient_Do env (remote w) req = (Inr resp, s1)"
  shows "(fst (PostMessage env c threadID message w) = None
            \<longleftrightarrow> StatusCode resp = 200 \<or> StatusCode resp = 201)
       \<and> (StatusCode resp = 200 \<or> StatusCode resp = 201 \<longrightarrow>
            trace (snd (PostMessage env c threadID message w)) = trace w @ [Sent req])
       \<and> (StatusCode resp \<noteq> 200 \<and> StatusCode resp \<noteq> 201 \<longrightarrow>
            (\<exists>err. fst (PostMessage env c threadID message w) = Some err
               \<and> err = APIError (StatusCode resp) (resp_Body resp)
               \<and> Error err = ''discord API error (status '' @ itoa (StatusCode resp) @ ''): ''
                              @ resp_Body resp))"
  by (simp add: PostMessage_answered [OF req marshal url send])

text \<open>
  An answer with status 201, and one with status 403.
\<close>

theorem PostMessage_succeeds_on_200_or_201_witness:
  \<open>fst (PostMessage mock_env (NewClient ''secret'' ''1234'') ''999''
      \<lparr>msg_Content = ''reopened'', msg_Embeds = []\<rparr>
      \<lparr>remote = [Inr \<lparr>StatusCode = 201, resp_Body = ''{"id":"5"}''\<rparr>], trace = []\<rparr>) = None
   \<and> trace (snd (PostMessage mock_env (NewClient ''secret'' ''1234'') ''999''
      \<lparr>msg_Content = ''reopened'', msg_Embeds = []\<rparr>
      \<lparr>remote = [Inr \<lparr>StatusCode = 201, resp_Body = ''{"id":"5"}''\<rparr>], trace = []\<rparr>))
     = [Sent \<lparr>Method = ''POST'',
              URL = ''https://discord.com/api/v10/channels/999/messages'',
              Header = [''Authorization'' \<mapsto> ''Bot secret'',
                        ''Content-Type'' \<mapsto> ''application/json''],
              Body = Some ''{}''\<rparr>]
   \<and> fst (PostMessage mock_env (NewClient ''secret'' ''1234'') ''999''
      \<lparr>msg_Content = ''reopened'', msg_Embeds = []\<rparr>
      \<lparr>remote = [Inr \<lparr>StatusCode = 403, resp_Body = ''Missing Access''\<rparr>], trace = []\<rparr>)
     = Some (APIError 403 ''Missing Access'')\<close>
proof -
  let ?posted = \<open>\<lparr>StatusCode = 201, resp_Body = ''{"id":"5"}''\<rparr>\<close>
  let ?denied = \<open>\<lparr>StatusCode = 403, resp_Body = ''Missing Access''\<rparr>\<close>
  let ?c = "NewClient ''secret'' ''1234''"
  let ?m = "\<lparr>msg_Content = ''reopened'', msg_Embeds = []\<rparr>"
  let ?w1 = "\<lparr>remote = [Inr ?posted], trace = []\<rparr> :: (string + response) list world"
  let ?w2 = "\<lparr>remote = [Inr ?denied], trace = []\<rparr> :: (string + response) list world"
  have marshal: "json_Marshal mock_env (ThreadMessage_json ?m) = Inr ''{}''"
    by (simp add: mock_env_def ThreadMessage_json_def omitempty_string_def)
  have url: "url_Parse mock_env
      (URL \<lparr>Method = ''POST'',
            URL = DiscordAPIBase @ ''/channels/'' @ ''999'' @ ''/messages'',
            Header = [''Authorization'' \<mapsto> ''Bot '' @ token ?c,
                      ''Content-Type'' \<mapsto> ''application/json''],
            Body = Some ''{}''\<rparr>) = None"
    by (simp add: mock_env_def)
  have send1: "httpClient_Do mock_env (remote ?w1) r = (Inr ?posted, [])" for r
    by (simp add: mock_env_def mock_Do_def)
  have send2: "httpClient_Do mock_env (remote ?w2) r = (Inr ?denied, [])" for r
    by (simp add: mock_env_def mock_Do_def)
  show ?thesis
    using PostMessage_succeeds_on_200_or_201 [OF refl marshal url send1]
      PostMessage_succeeds_on_200_or_201 [OF refl marshal url send2]
    by (simp add: NewClient_def DiscordAPIBase_def)
qed

text \<open>
  C6. For every thread id, once the request has been answered: the one request
  \<open>ArchiveThread\<close> sends is a PATCH of the thread's URL whose body is the encoding of the
  document \<^verbatim>\<open>{"archived": true}\<close>; the call returns the nil error exactly when the status
  is 200, and with any other status the error made of the status code and the body.
\<close>

theorem ArchiveThread_patches_archived_true:
  fixes env :: "'s env"
  assumes req: "req = \<lparr>Method = ''PATCH'',
                  URL = DiscordAPIBase @ ''/channels/'' @ threadID,
                  Header = [''Authorization'' \<mapsto> ''Bot '' @ token c,
                            ''Content-Type'' \<mapsto> ''application/json''],
                  Body = Some jsonData\<rparr>"
    and marshal: "json_Marshal env (JObj [(''archived'', JBool True)]) = Inr jsonData"
    and url: "url_Parse env (URL req) = None"
    and send: "httpClient_Do env (remote w) req = (Inr resp, s1)"
  shows "requests (trace (snd (ArchiveThread env c threadID w))) = requests (trace w) @ [req]
       \<and> (fst (ArchiveThread env c threadID w) = None \<longleftrightarrow> StatusCode resp = 200)
       \<and> (StatusCode resp \<noteq> 200 \<longrightarrow>
            (\<exists>err. fst (ArchiveThread env c threadID w) = Some err
               \<and> err = APIError (StatusCode resp) (resp_Body resp)
               \<and> Error err = ''discord API error (status '' @ itoa (StatusCode resp) @ ''): ''
                              @ resp_Body resp))"
  by (simp add: ArchiveThread_answered [OF req marshal url send] requests_append)

text \<open>
  The scenario of the specification (thread 999, status 403), and an answer with status 200.
\<close>

theorem ArchiveThread_patches_archived_true_witness:
  \<open>requests (trace (snd (ArchiveThread mock_env (NewClient ''secret'' ''1234'') ''999''
      \<lparr>remote = [Inr \<lparr>StatusCode = 403, resp_Body = ''Missing Access''\<rparr>], trace = []\<rparr>)))
   = [\<lparr>Method = ''PATCH'', URL = ''https://discord.com/api/v10/channels/999'',
       Header = [''Authorization'' \<mapsto> ''Bot secret'',
                 ''Content-Type'' \<mapsto> ''application/json''],
       Body = Some ''{"archived":true}''\<rparr>]
   \<and> (\<exists>err. fst (ArchiveThread mock_env (NewClient ''secret'' ''1234'') ''999''
      \<lparr>remote = [Inr \<lparr>StatusCode = 403, resp_Body = ''Missing Access''\<rparr>], trace = []\<rparr>)
       = Some err \<and> Error err = ''discord API error (status 403): Missing Access'')
   \<and> fst (ArchiveThread mock_env (NewClient ''secret'' ''1234'') ''999''
      \<lparr>remote = [Inr \<lparr>StatusCode = 200, resp_Body = ''{"id":"999"}''\<rparr>], trace = []\<rparr>) = None\<close>
proof -
  let ?denied = \<open>\<lparr>StatusCode = 403, resp_Body = ''Missing Access''\<rparr>\<close>
  let ?done = \<open>\<lparr>StatusCode = 200, resp_Body = ''{"id":"999"}''\<rparr>\<close>
  let ?c = "NewClient ''secret'' ''1234''"
  let ?w1 = "\<lparr>remote = [Inr ?denied], trace = []\<rparr> :: (string + response) list world"
  let ?w2 = "\<lparr>remote = [Inr ?done], trace = []\<rparr> :: (string + response) list world"
  have marshal: \<open>json_Marshal mock_env (JObj [(''archived'', JBool True)])
      = Inr ''{"archived":true}''\<close>
    by (simp add: mock_env_def)
  have url: \<open>url_Parse mock_env
      (URL \<lparr>Method = ''PATCH'',
            URL = DiscordAPIBase @ ''/channels/'' @ ''999'',
            Header = [''Authorization'' \<mapsto> ''Bot '' @ token ?c,
                      ''Content-Type'' \<mapsto> ''application/json''],
            Body = Some ''{"archived":true}''\<rparr>) = None\<close>
    by (simp add: mock_env_def)
  have send1: "httpClient_Do mock_env (remote ?w1) r = (Inr ?denied, [])" for r
    by (simp add: mock_env_def mock_Do_def)
  have send2: "httpClient_Do mock_env (remote ?w2) r = (Inr ?done, [])" for r
    by (simp add: mock_env_def mock_Do_def)
  show ?thesis
    using ArchiveThread_patches_archived_true [OF refl marshal url send1]
      ArchiveThread_patches_archived_true [OF refl marshal url send2]
    by (simp add: NewClient_def DiscordAPIBase_def itoa_403)
qed

subsection \<open>The requests a call sends, whatever the library and the remote side do\<close>

lemma GetOrCreateRepoTag_sends:
  fixes env :: "'s env"
  assumes "r \<in> set (requests (drop (length (trace w))
                         (trace (snd (GetOrCreateRepoTag env c repoName w)))))"
  shows "Header r = [''Authorization'' \<mapsto> ''Bot '' @ token c] \<and> Method r = ''GET''
           \<and> Body r = None
         \<or> Header r = [''Authorization'' \<mapsto> ''Bot '' @ token c,
                        ''Content-Type'' \<mapsto> ''application/json'']
           \<and> Method r = ''PATCH'' \<and> Body r \<noteq> None"
  using assms
  by (auto simp: GetOrCreateRepoTag_def NewRequest_def Header_Set_def Do_def ReadAll_def Let_def
      split: sum.splits option.splits prod.splits if_splits)

lemma CreateThread_sends:
  fixes env :: "'s env"
  assumes "r \<in> set (requests (drop (length (trace w))
                         (trace (snd (CreateThread env c title message tagIDs w)))))"
  shows "Header r = [''Authorization'' \<mapsto> ''Bot '' @ token c,
                     ''Content-Type'' \<mapsto> ''application/json'']
         \<and> Method r = ''POST'' \<and> Body r \<noteq> None"
  using assms
  by (auto simp: CreateThread_def NewRequest_def Header_Set_def Do_def ReadAll_def Let_def
      split: sum.splits option.splits prod.splits if_splits)

lemma PostMessage_sends:
  fixes env :: "'s env"
  assumes "r \<in> set (requests (drop (length (trace w))
                         (trace (snd (PostMessage env c threadID message w)))))"
  shows "Header r = [''Authorization'' \<mapsto> ''Bot '' @ token c,
                     ''Content-Type'' \<mapsto> ''application/json'']
         \<and> Method r = ''POST'' \<and> Body r \<noteq> None"
  using assms
  by (auto simp: PostMessage_def NewRequest_def Header_Set_def Do_def ReadAll_def Let_def
      split: sum.splits option.splits prod.splits if_splits)

lemma ArchiveThread_sends:
  fixes env :: "'s env"
  assumes "r \<in> set (requests (drop (length (trace w))
                         (trace (snd (ArchiveThread env c threadID w)))))"
  shows "Header r = [''Authorization'' \<mapsto> ''Bot '' @ token c,
                     ''Content-Type'' \<mapsto> ''application/json'']
         \<and> Method r = ''PATCH'' \<and> Body r \<noteq> None"
  using assms
  by (auto simp: ArchiveThread_def NewRequest_def Header_Set_def Do_def ReadAll_def Let_def
      split: sum.splits option.splits prod.splits if_splits)

text \<open>
  C7. Every request that any of the four operations hands to the transport, for a client
  built by \<open>NewClient tok channel\<close> and whatever the library and the remote side do,
  carries \<^verbatim>\<open>Authorization: Bot <tok>\<close>, and carries \<^verbatim>\<open>Content-Type: application/json\<close>
  exactly when it has a body; a request without a body has no \<^verbatim>\<open>Content-Type\<close> at all, and
  a GET has no body.
\<close>

theorem every_request_carries_bot_token:
  fixes env :: "'s env"
  assumes c: "c = NewClient tok channel"
    and sent: "r \<in> set (requests (drop (length (trace w))
                           (trace (snd (GetOrCreateRepoTag env c repoName w)))))
             \<or> r \<in> set (requests (drop (length (trace w))
                           (trace (snd (CreateThread env c title message tagIDs w)))))
             \<or> r \<in> set (requests (drop (length (trace w))
                           (trace (snd (PostMessage env c threadID message w)))))
             \<or> r \<in> set (requests (drop (length (trace w))
                           (trace (snd (ArchiveThread env c threadID w)))))"
  shows "Header r ''Authorization'' = Some (''Bot '' @ tok)
       \<and> (Header r ''Content-Type'' = Some ''application/json'' \<longleftrightarrow> Body r \<noteq> None)
       \<and> (Body r = None \<longrightarrow> Header r ''Content-Type'' = None)
       \<and> (Method r = ''GET'' \<longrightarrow> Body r = None)"
proof -
  have tok: "token c = tok"
    by (simp add: c NewClient_def)
  from sent show ?thesis
  proof (elim disjE)
    assume "r \<in> set (requests (drop (length (trace w))
                         (trace (snd (GetOrCreateRepoTag env c repoName w)))))"
    from GetOrCreateRepoTag_sends [OF this] show ?thesis
      unfolding tok by auto
  next
    assume "r \<in> set (requests (drop (length (trace w))
                         (trace (snd (CreateThread env c title message tagIDs w)))))"
    from CreateThread_sends [OF this] show ?thesis
      unfolding tok by auto
  next
    assume "r \<in> set (requests (drop (length (trace w))
                         (trace (snd (PostMessage env c threadID message w)))))"
    from PostMessage_sends [OF this] show ?thesis
      unfolding tok by auto
  next
    assume "r \<in> set (requests (drop (length (trace w))
                         (trace (snd (ArchiveThread env c threadID w)))))"
    from ArchiveThread_sends [OF this] show ?thesis
      unfolding tok by auto
  qed
qed

text \<open>
  The two requests of a call that creates the tag repoB.
\<close>

theorem every_request_carries_bot_token_witness:
  \<open>map (\<lambda>r. (Method r, Header r ''Authorization'', Header r ''Content-Type'', Body r))
     (requests (trace (snd (GetOrCreateRepoTag mock_env (NewClient ''secret'' ''1234'') ''repoB''
        \<lparr>remote = [Inr \<lparr>StatusCode = 200, resp_Body = ''{"available_tags":[]}''\<rparr>,
                   Inr \<lparr>StatusCode = 200,
                         resp_Body = ''{"available_tags":[{"id":"42","name":"repoB"}]}''\<rparr>],
         trace = []\<rparr>))))
   = [(''GET'', Some ''Bot secret'', None, None),
      (''PATCH'', Some ''Bot secret'', Some ''application/json'', Some ''{}'')]
   \<and> list_all (\<lambda>r. Header r ''Authorization'' = Some ''Bot secret''
                    \<and> (Header r ''Content-Type'' = Some ''application/json'' \<longleftrightarrow> Body r \<noteq> None))
       (requests (trace (snd (GetOrCreateRepoTag mock_env (NewClient ''secret'' ''1234'') ''repoB''
        \<lparr>remote = [Inr \<lparr>StatusCode = 200, resp_Body = ''{"available_tags":[]}''\<rparr>,
                   Inr \<lparr>StatusCode = 200,
                         resp_Body = ''{"available_tags":[{"id":"42","name":"repoB"}]}''\<rparr>],
         trace = []\<rparr>))))\<close>
proof -
  let ?w = \<open>\<lparr>remote = [Inr \<lparr>StatusCode = 200, resp_Body = ''{"available_tags":[]}''\<rparr>,
                   Inr \<lparr>StatusCode = 200,
                         resp_Body = ''{"available_tags":[{"id":"42","name":"repoB"}]}''\<rparr>],
         trace = []\<rparr> :: (string + response) list world\<close>
  let ?c = "NewClient ''secret'' ''1234''"
  have run: "map (\<lambda>r. (Method r, Header r ''Authorization'', Header r ''Content-Type'', Body r))
     (requests (trace (snd (GetOrCreateRepoTag mock_env ?c ''repoB'' ?w))))
   = [(''GET'', Some ''Bot secret'', None, None),
      (''PATCH'', Some ''Bot secret'', Some ''application/json'', Some ''{}'')]"
    by (simp add: GetOrCreateRepoTag_def NewRequest_def Header_Set_def Do_def ReadAll_def Let_def
        mock_env_def mock_Do_def mock_Unmarshal_ForumChannelResponse_def NewClient_def
        PatchBody_json_def ForumTag_json_def)
  have each: "Header r ''Authorization'' = Some ''Bot secret''
        \<and> (Header r ''Content-Type'' = Some ''application/json'' \<longleftrightarrow> Body r \<noteq> None)"
    if "r \<in> set (requests (trace (snd (GetOrCreateRepoTag mock_env ?c ''repoB'' ?w))))" for r
    using every_request_carries_bot_token
      [OF refl, of r ?w mock_env "''secret''" "''1234''" "''repoB''"] that
    by simp
  from run each show ?thesis unfolding list_all_iff by blast
qed

end
